theory Spec2Isabelle
  imports Main
begin

section \<open>Python values and effects of \<open>app.py\<close>\<close>

text \<open>
  \<open>app.py\<close> is a Streamlit script: every interaction of the user reruns the whole
  file from the top, with the widgets returning their current values. The script
  calls four libraries (pandas, pycaret, ydata-profiling with its Streamlit component,
  pdfkit) whose code is not part of the repository; they are parameters of the model
  (the record \<open>env\<close> below), each call returning either a value or the exception it
  raises.

  A value of \<open>py_exception\<close> stands for an instance of Python's class \<open>Exception\<close>,
  which is what every handler of the script (\<open>except Exception as e\<close>) catches;
  \<open>str\<close> is what \<open>f"{e}"\<close> prints. Interrupts of the interpreter
  (\<open>KeyboardInterrupt\<close>, \<open>SystemExit\<close>) are not results of a library call and are
  outside the model.
\<close>

datatype py_exception = Exception (str: string)

datatype 'a outcome = Return 'a | Raise py_exception

subsection \<open>DataFrame\<close>

datatype cell = IntCell int | StrCell string | BoolCell bool | NaN

record dataframe =
  columns :: "string list"
  rows :: "cell list list"

text \<open>\<open>pd.DataFrame()\<close>: no columns, no rows.\<close>

definition DataFrame :: dataframe where
  "DataFrame = \<lparr>columns = [], rows = []\<rparr>"

text \<open>\<open>df.empty\<close>: true when any axis has length 0.\<close>

definition df_empty :: "dataframe \<Rightarrow> bool" where
  "df_empty df = (length (columns df) = 0 \<or> length (rows df) = 0)"

text \<open>\<open>df.head(n)\<close> for \<open>n \<ge> 0\<close>: a new frame with the first \<open>n\<close> rows (all of them
  when there are fewer).\<close>

definition head :: "dataframe \<Rightarrow> nat \<Rightarrow> dataframe" where
  "head df n = df\<lparr>rows := take n (rows df)\<rparr>"

subsection \<open>Strings\<close>

text \<open>\<open>s.endswith(suffix)\<close>, case-sensitive.\<close>

definition endswith :: "string \<Rightarrow> string \<Rightarrow> bool" where
  "endswith s suffix =
     (length suffix \<le> length s \<and> drop (length s - length suffix) s = suffix)"

text \<open>\<open>s.lower()\<close> on the ASCII letters: an upper-case letter gets bit 5 set.\<close>

definition lower_char :: "char \<Rightarrow> char" where
  "lower_char c =
     (if (65::nat) \<le> of_char c \<and> of_char c \<le> (90::nat)
      then (case c of Char b0 b1 b2 b3 b4 b5 b6 b7 \<Rightarrow> Char b0 b1 b2 b3 b4 True b6 b7)
      else c)"

definition lower :: "string \<Rightarrow> string" where
  "lower s = map lower_char s"

text \<open>\<open>a or b\<close> on strings: \<open>a\<close> when it is truthy (non-empty), else \<open>b\<close>.\<close>

definition py_or :: "string \<Rightarrow> string \<Rightarrow> string" where
  "py_or a b = (if a \<noteq> [] then a else b)"

text \<open>The characters of the script's literals outside ASCII, as their UTF-8 bytes.\<close>

definition check_mark :: string where
  "check_mark = [CHR 0xE2, CHR 0x9C, CHR 0x85]"

definition clipboard :: string where
  "clipboard = [CHR 0xF0, CHR 0x9F, CHR 0x93, CHR 0x8B]"

definition inbox_tray :: string where
  "inbox_tray = [CHR 0xF0, CHR 0x9F, CHR 0x93, CHR 0xA5]"

definition nb_hyphen :: string where
  "nb_hyphen = [CHR 0xE2, CHR 0x80, CHR 0x91]"

definition ellipsis :: string where
  "ellipsis = [CHR 0xE2, CHR 0x80, CHR 0xA6]"

subsection \<open>Streamlit elements and the script's effects\<close>

text \<open>The file object that \<open>st.file_uploader\<close> returns.\<close>

record UploadedFile =
  name :: string
  content :: "char list"

datatype download_data = HtmlStr string | PdfBytes "char list"

text \<open>
  One constructor for each Streamlit call of the part of the script that follows the
  sidebar (lines 99 to 160), with the arguments of the call; \<open>'p\<close> is the type of
  the profile object. The page is the list of the calls made, in order.
\<close>

datatype 'p element =
    St_success string
  | St_error string
  | St_warning string
  | St_info string
  | St_subheader string
  | St_dataframe dataframe bool
  | St_button string
  | St_spinner string
  | St_profile_report 'p
  | St_columns nat
  | St_download_button string download_data string string

text \<open>
  A statement of the script takes the page so far and gives back its outcome and the
  page after it: what was displayed before an exception stays displayed.
\<close>

type_synonym ('p, 'a) py = "'p element list \<Rightarrow> 'a outcome \<times> 'p element list"

definition return_py :: "'a \<Rightarrow> ('p, 'a) py" where
  "return_py x = (\<lambda>page. (Return x, page))"

definition bind_py :: "('p, 'a) py \<Rightarrow> ('a \<Rightarrow> ('p, 'b) py) \<Rightarrow> ('p, 'b) py" where
  "bind_py m f =
     (\<lambda>page. case m page of
        (Return x, page') \<Rightarrow> f x page'
      | (Raise e, page') \<Rightarrow> (Raise e, page'))"

definition then_py :: "('p, 'a) py \<Rightarrow> ('p, 'b) py \<Rightarrow> ('p, 'b) py" where
  "then_py m k = bind_py m (\<lambda>_. k)"

text \<open>\<open>try: body except Exception as e: handler\<close>.\<close>

definition try_except :: "('p, 'a) py \<Rightarrow> (py_exception \<Rightarrow> ('p, 'a) py) \<Rightarrow> ('p, 'a) py" where
  "try_except body handler =
     (\<lambda>page. case body page of
        (Return x, page') \<Rightarrow> (Return x, page')
      | (Raise e, page') \<Rightarrow> handler e page')"

text \<open>A call into a library: its value, or the exception it raises.\<close>

definition call :: "py_exception + 'a \<Rightarrow> ('p, 'a) py" where
  "call r = (\<lambda>page. case r of Inl e \<Rightarrow> (Raise e, page) | Inr x \<Rightarrow> (Return x, page))"

definition show_element :: "'p element \<Rightarrow> ('p, unit) py" where
  "show_element el = (\<lambda>page. (Return (), page @ [el]))"

subsection \<open>The libraries\<close>

text \<open>
  \<open>read_csv\<close>, \<open>read_excel\<close>: \<open>pd.read_csv(file)\<close>, \<open>pd.read_excel(file)\<close>;
  \<open>get_data name profile\<close>: \<open>pycaret.datasets.get_data(name, profile=profile)\<close>;
  \<open>ProfileReport df title explorative minimal\<close>: the constructor of ydata-profiling;
  \<open>profile_component\<close>: what \<open>st_profile_report(profile)\<close> computes before it
  displays; \<open>to_html\<close>: \<open>profile.to_html()\<close>;
  \<open>from_string html output_path\<close>: \<open>pdfkit.from_string(html, False)\<close>.
\<close>

record 'p env =
  read_csv :: "UploadedFile \<Rightarrow> py_exception + dataframe"
  read_excel :: "UploadedFile \<Rightarrow> py_exception + dataframe"
  get_data :: "string \<Rightarrow> bool \<Rightarrow> py_exception + dataframe"
  ProfileReport :: "dataframe \<Rightarrow> string \<Rightarrow> bool \<Rightarrow> bool \<Rightarrow> py_exception + 'p"
  profile_component :: "'p \<Rightarrow> py_exception + unit"
  to_html :: "'p \<Rightarrow> py_exception + string"
  from_string :: "string \<Rightarrow> bool \<Rightarrow> py_exception + char list"

definition st_profile_report :: "'p env \<Rightarrow> 'p \<Rightarrow> ('p, unit) py" where
  "st_profile_report env profile =
     then_py (call (profile_component env profile))
             (show_element (St_profile_report profile))"

section \<open>Utility helpers (lines 29 to 50)\<close>

definition read_uploaded_file :: "'p env \<Rightarrow> UploadedFile \<Rightarrow> ('p, dataframe) py" where
  "read_uploaded_file env file =
     try_except
       (bind_py
          (if endswith (name file) ''.csv''
           then call (read_csv env file)
           else call (read_excel env file))
          (\<lambda>df. return_py df))
       (\<lambda>e. then_py (show_element (St_error (''Could not read the file: '' @ str e)))
                     (return_py DataFrame))"

definition convert_html_to_pdf :: "'p env \<Rightarrow> string \<Rightarrow> ('p, char list option) py" where
  "convert_html_to_pdf env html_str =
     try_except
       (bind_py (call (from_string env html_str False))
          (\<lambda>pdf_bytes. return_py (Some pdf_bytes)))
       (\<lambda>e. then_py (show_element (St_warning (''PDF conversion failed: '' @ str e)))
                     (return_py None))"

section \<open>Sidebar widgets (lines 78 to 93)\<close>

definition builtin_ds :: "string list" where
  "builtin_ds =
     [''juice'', ''titanic'', ''diabetes'', ''winequality-red'',
      ''iris'', ''boston_housing'', ''adult'']"

text \<open>The options of the selectbox; it returns one of them.\<close>

definition selectbox_options :: "string list" where
  "selectbox_options = ''-- none --'' # builtin_ds"

text \<open>The \<open>type\<close> argument of \<open>st.file_uploader\<close>.\<close>

definition uploader_type :: "string list" where
  "uploader_type = [''csv'', ''xlsx'']"

text \<open>
  Streamlit's uploader admits a file when its name, in lower case, ends in a dot and
  one of the extensions listed in \<open>type\<close>.
\<close>

primrec has_allowed_extension :: "string list \<Rightarrow> string \<Rightarrow> bool" where
  "has_allowed_extension [] fname = False"
| "has_allowed_extension (t # ts) fname =
     (endswith fname (''.'' @ t) \<or> has_allowed_extension ts fname)"

definition file_uploader_accepts :: "string \<Rightarrow> bool" where
  "file_uploader_accepts fname = has_allowed_extension uploader_type (lower fname)"

text \<open>What the widgets return in one run of the script.\<close>

record inputs =
  selected_builtin :: string
  uploaded_file :: "UploadedFile option"
  generate_clicked :: bool

section \<open>Load data (lines 99 to 113)\<close>

text \<open>The value returned is the variable \<open>df\<close> after line 113.\<close>

definition load_data ::
  "'p env \<Rightarrow> string \<Rightarrow> UploadedFile option \<Rightarrow> ('p, dataframe option) py" where
  "load_data env selected uploaded =
     bind_py
       (if selected \<noteq> ''-- none --''
        then try_except
               (bind_py (call (get_data env selected False))
                  (\<lambda>df. then_py
                     (show_element
                        (St_success (check_mark @ '' Loaded **'' @ selected @ ''** dataset.'')))
                     (return_py (Some df))))
               (\<lambda>e. then_py
                  (show_element
                     (St_error (''Error loading built'' @ nb_hyphen @ ''in dataset: '' @ str e)))
                  (return_py None))
        else return_py None)
       (\<lambda>df. case uploaded of
          None \<Rightarrow> return_py df
        | Some file \<Rightarrow>
            bind_py (read_uploaded_file env file)
              (\<lambda>df. then_py
                 (if \<not> df_empty df
                  then show_element (St_success (check_mark @ '' Uploaded data loaded.''))
                  else return_py ())
                 (return_py (Some df))))"

section \<open>Data preview and profiling report (lines 119 to 160)\<close>

text \<open>The body of \<open>if st.button("Generate Profiling Report")\<close>, lines 125 to 157.\<close>

definition generate_report :: "'p env \<Rightarrow> dataframe \<Rightarrow> string \<Rightarrow> ('p, unit) py" where
  "generate_report env df selected =
     then_py (show_element (St_spinner (''Creating the profile'' @ ellipsis)))
       (try_except
          (bind_py (call (ProfileReport env df ''Data Profiling'' True True))
             (\<lambda>profile. then_py (st_profile_report env profile)
                (bind_py (call (to_html env profile))
                   (\<lambda>html_str. then_py (show_element (St_columns 2))
                      (then_py
                         (show_element
                            (St_download_button (inbox_tray @ '' Download HTML'')
                               (HtmlStr html_str)
                               (py_or selected ''uploaded_data'' @ ''_profiling.html'')
                               ''text/html''))
                         (bind_py (convert_html_to_pdf env html_str)
                            (\<lambda>pdf_bytes. case pdf_bytes of
                               None \<Rightarrow> return_py ()
                             | Some b \<Rightarrow>
                                 if b \<noteq> []
                                 then show_element
                                        (St_download_button (inbox_tray @ '' Download PDF'')
                                           (PdfBytes b)
                                           (py_or selected ''uploaded_data'' @ ''_profiling.pdf'')
                                           ''application/pdf'')
                                 else return_py ())))))))
          (\<lambda>e. show_element (St_error (''Profiling failed: '' @ str e))))"

definition data_preview ::
  "'p env \<Rightarrow> dataframe option \<Rightarrow> string \<Rightarrow> bool \<Rightarrow> ('p, unit) py" where
  "data_preview env df selected clicked =
     (case df of
        None \<Rightarrow>
          show_element
            (St_info (''Select a built'' @ nb_hyphen @ ''in dataset or upload a CSV/Excel file to start.''))
      | Some d \<Rightarrow>
          if \<not> df_empty d
          then then_py (show_element (St_subheader (clipboard @ '' Data Preview'')))
                 (then_py (show_element (St_dataframe (head d 10) True))
                    (then_py (show_element (St_button ''Generate Profiling Report''))
                       (if clicked then generate_report env d selected else return_py ())))
          else show_element
                 (St_info (''Select a built'' @ nb_hyphen @ ''in dataset or upload a CSV/Excel file to start.'')))"

text \<open>One run of the script from line 99 on; it returns the final value of \<open>df\<close>.\<close>

definition app :: "'p env \<Rightarrow> inputs \<Rightarrow> ('p, dataframe option) py" where
  "app env inp =
     bind_py (load_data env (selected_builtin inp) (uploaded_file inp))
       (\<lambda>df. then_py (data_preview env df (selected_builtin inp) (generate_clicked inp))
                (return_py df))"

section \<open>The states of the interactive shell\<close>

text \<open>
  The script keeps no state between runs (it never uses \<open>st.session_state\<close>, and
  line 99 sets \<open>df\<close> to \<open>None\<close> at every run). The states named by the
  specification are read off the end of a run: \<open>Idle\<close> when the preview condition of
  line 119 fails, \<open>Profiled\<close> when a download button is on the page, \<open>Loaded\<close>
  otherwise.
\<close>

datatype shell_state = Idle | Loaded dataframe | Profiled dataframe

primrec exports_available :: "'p element list \<Rightarrow> bool" where
  "exports_available [] = False"
| "exports_available (el # els) =
     (case el of
        St_download_button label d file_name mime \<Rightarrow> True
      | _ \<Rightarrow> exports_available els)"

definition shell_state_after :: "dataframe option outcome \<times> 'p element list \<Rightarrow> shell_state" where
  "shell_state_after r =
     (case fst r of
        Return (Some d) \<Rightarrow>
          if df_empty d then Idle
          else if exports_available (snd r) then Profiled d
          else Loaded d
      | Return None \<Rightarrow> Idle
      | Raise e \<Rightarrow> Idle)"

section \<open>Concrete files, tables and libraries\<close>

definition iris_df :: dataframe where
  "iris_df =
     \<lparr>columns = [''sepal_length'', ''species''],
      rows = [[IntCell 51, StrCell ''setosa''], [IntCell 49, StrCell ''setosa''],
              [IntCell 47, StrCell ''setosa''], [IntCell 46, StrCell ''setosa''],
              [IntCell 50, StrCell ''setosa''], [IntCell 54, StrCell ''setosa''],
              [IntCell 70, StrCell ''versicolor''], [IntCell 64, StrCell ''versicolor''],
              [IntCell 69, StrCell ''versicolor''], [IntCell 55, StrCell ''versicolor''],
              [IntCell 63, StrCell ''virginica''], [IntCell 58, StrCell ''virginica'']]\<rparr>"

definition sales_df :: dataframe where
  "sales_df = \<lparr>columns = [''item'', ''sold''], rows = [[StrCell ''pen'', IntCell 3], [StrCell ''ink'', NaN]]\<rparr>"

definition sales_csv :: UploadedFile where
  "sales_csv = \<lparr>name = ''sales.csv'', content = ''item,sold'' @ [CHR 0x0A] @ ''pen,3'' @ [CHR 0x0A] @ ''ink,''\<rparr>"

definition broken_csv :: UploadedFile where
  "broken_csv = \<lparr>name = ''notes.csv'', content = ''a'' @ [CHR 0x0A] @ ''1,2'' @ [CHR 0x0A] @ ''3,4,5''\<rparr>"

text \<open>
  Libraries for the examples: pandas reads \<open>sales_csv\<close> and fails on every other
  file, pycaret has \<open>iris\<close> and cannot fetch anything else, profiling works, and
  no PDF renderer is installed. The profile object is represented by its title and mode.
\<close>

definition env0 :: "(string \<times> bool) env" where
  "env0 =
     \<lparr>read_csv = (\<lambda>f. if f = sales_csv then Inr sales_df
                       else Inl (Exception ''Error tokenizing data'')),
      read_excel = (\<lambda>f. Inl (Exception ''Excel file format cannot be determined'')),
      get_data = (\<lambda>n p. if n = ''iris'' then Inr iris_df
                         else Inl (Exception ''HTTP Error 404: Not Found'')),
      ProfileReport = (\<lambda>df title explorative minimal. Inr (title, minimal)),
      profile_component = (\<lambda>p. Inr ()),
      to_html = (\<lambda>p. Inr (''<!doctype html><title>'' @ fst p @ ''</title>'')),
      from_string = (\<lambda>html out. Inl (Exception ''No wkhtmltopdf executable found''))\<rparr>"

section \<open>Running the statements\<close>

lemmas py_defs =
  return_py_def bind_py_def then_py_def try_except_def call_def show_element_def

lemma read_uploaded_file_run:
  "read_uploaded_file env file page =
     (case (if endswith (name file) ''.csv'' then read_csv env file else read_excel env file) of
        Inr df \<Rightarrow> (Return df, page)
      | Inl e \<Rightarrow> (Return DataFrame, page @ [St_error (''Could not read the file: '' @ str e)]))"
  by (simp add: read_uploaded_file_def py_defs split: sum.splits)

lemma convert_html_to_pdf_run:
  "convert_html_to_pdf env html_str page =
     (case from_string env html_str False of
        Inr pdf_bytes \<Rightarrow> (Return (Some pdf_bytes), page)
      | Inl e \<Rightarrow> (Return None, page @ [St_warning (''PDF conversion failed: '' @ str e)]))"
  by (simp add: convert_html_to_pdf_def py_defs split: sum.splits)

lemma generate_report_returns:
  "fst (generate_report env df selected page) = Return ()"
  by (simp add: generate_report_def st_profile_report_def convert_html_to_pdf_run py_defs
      split: sum.splits prod.splits outcome.splits option.splits)

lemma data_preview_returns:
  "fst (data_preview env df selected clicked page) = Return ()"
  using generate_report_returns [of env _ selected]
  by (simp add: data_preview_def py_defs split: option.splits prod.splits outcome.splits)

lemma load_data_no_upload:
  "load_data env selected None page =
     (if selected \<noteq> ''-- none --''
      then case get_data env selected False of
             Inr df \<Rightarrow>
               (Return (Some df),
                page @ [St_success (check_mark @ '' Loaded **'' @ selected @ ''** dataset.'')])
           | Inl e \<Rightarrow>
               (Return None,
                page @ [St_error (''Error loading built'' @ nb_hyphen @ ''in dataset: '' @ str e)])
      else (Return None, page))"
  by (simp add: load_data_def py_defs split: sum.splits)

lemma load_data_upload:
  "load_data env selected (Some file) page =
     (case read_uploaded_file env file (snd (load_data env selected None page)) of
        (Return d, page') \<Rightarrow>
          (Return (Some d),
           if \<not> df_empty d then page' @ [St_success (check_mark @ '' Uploaded data loaded.'')]
           else page')
      | (Raise e, page') \<Rightarrow> (Raise e, page'))"
  by (simp add: load_data_def read_uploaded_file_run py_defs
      split: sum.splits prod.splits outcome.splits option.splits)

lemma app_run:
  assumes "fst (load_data env (selected_builtin inp) (uploaded_file inp) page) = Return df"
  shows "app env inp page =
     (Return df,
      snd (data_preview env df (selected_builtin inp) (generate_clicked inp)
             (snd (load_data env (selected_builtin inp) (uploaded_file inp) page))))"
proof -
  obtain page' where l:
    "load_data env (selected_builtin inp) (uploaded_file inp) page = (Return df, page')"
    using assms by (cases "load_data env (selected_builtin inp) (uploaded_file inp) page") simp
  obtain page'' where d:
    "data_preview env df (selected_builtin inp) (generate_clicked inp) page' = (Return (), page'')"
    using data_preview_returns [of env df "selected_builtin inp" "generate_clicked inp" page']
    by (cases "data_preview env df (selected_builtin inp) (generate_clicked inp) page'") simp
  show ?thesis
    by (simp add: app_def bind_py_def then_py_def return_py_def l d)
qed

lemma load_data_ProfileReport_update:
  "load_data (env\<lparr>ProfileReport := pr\<rparr>) selected uploaded page =
     load_data env selected uploaded page"
proof (cases uploaded)
  case None
  then show ?thesis
    by (simp add: load_data_no_upload)
next
  case (Some f)
  have n: "load_data (env\<lparr>ProfileReport := pr\<rparr>) selected None page =
      load_data env selected None page"
    by (simp add: load_data_no_upload)
  have r: "\<And>pg. read_uploaded_file (env\<lparr>ProfileReport := pr\<rparr>) f pg =
      read_uploaded_file env f pg"
    by (simp add: read_uploaded_file_run)
  show ?thesis
    by (simp add: Some load_data_upload n r)
qed

lemma generate_report_ProfileReport_update:
  assumes "pr d ''Data Profiling'' True True = ProfileReport env d ''Data Profiling'' True True"
  shows "generate_report (env\<lparr>ProfileReport := pr\<rparr>) d selected =
     generate_report env d selected"
proof -
  have c: "\<And>h. convert_html_to_pdf (env\<lparr>ProfileReport := pr\<rparr>) h = convert_html_to_pdf env h"
    by (simp add: convert_html_to_pdf_def)
  have s: "\<And>p. st_profile_report (env\<lparr>ProfileReport := pr\<rparr>) p = st_profile_report env p"
    by (simp add: st_profile_report_def)
  have h: "ProfileReport (env\<lparr>ProfileReport := pr\<rparr>) d ''Data Profiling'' True True =
      ProfileReport env d ''Data Profiling'' True True"
    using assms by simp
  have t: "to_html (env\<lparr>ProfileReport := pr\<rparr>) = to_html env"
    by simp
  show ?thesis
    unfolding generate_report_def c s h t by (rule refl)
qed

lemma exports_available_append:
  "exports_available (xs @ ys) = (exports_available xs \<or> exports_available ys)"
  by (induction xs) (simp_all split: element.splits)

lemma load_data_no_exports:
  "exports_available (snd (load_data env selected uploaded [])) = False"
proof -
  have n: "exports_available (snd (load_data env selected None [])) = False"
    by (simp add: load_data_no_upload split: sum.splits)
  show ?thesis
  proof (cases uploaded)
    case None
    with n show ?thesis by simp
  next
    case (Some f)
    show ?thesis
      using n
      by (simp add: Some load_data_upload read_uploaded_file_run exports_available_append
          split: sum.splits)
  qed
qed

text \<open>What a failing profiling step leaves on the page.\<close>

lemma generate_report_failure:
  assumes "ProfileReport env d ''Data Profiling'' True True = Inl e
         \<or> (\<exists>p. ProfileReport env d ''Data Profiling'' True True = Inr p
                \<and> (profile_component env p = Inl e
                    \<or> (profile_component env p = Inr () \<and> to_html env p = Inl e)))"
  shows "\<exists>shown. generate_report env d selected page =
           (Return (), page @ St_spinner (''Creating the profile'' @ ellipsis) # shown
                         @ [St_error (''Profiling failed: '' @ str e)])
         \<and> exports_available shown = False"
  using assms
  by (auto simp add: generate_report_def st_profile_report_def py_defs)

section \<open>Dataset loader\<close>

text \<open>
  C1. In every run in which a file is uploaded, the active Dataset (the variable
  \<open>df\<close> after the loading block, which is also the one the rest of the run uses) is
  the frame that \<open>read_uploaded_file\<close> produced from that file, whatever built-in
  dataset is selected and whether or not its load succeeded.
\<close>

theorem upload_overrides_builtin:
  assumes "uploaded_file inp = Some up"
    and "fst (read_uploaded_file env up other_page) = Return d"
  shows "fst (load_data env (selected_builtin inp) (uploaded_file inp) page) = Return (Some d)
       \<and> fst (app env inp page) = Return (Some d)"
proof -
  have l: "fst (load_data env (selected_builtin inp) (uploaded_file inp) page) = Return (Some d)"
    using assms
    by (simp add: load_data_upload read_uploaded_file_run split: sum.splits if_splits)
  then show ?thesis
    by (simp add: app_run)
qed

text \<open>
  The built-in \<open>iris\<close> is selected and loads, \<open>sales.csv\<close> is uploaded in the same
  run: the active Dataset is the table of the file.
\<close>

theorem upload_overrides_builtin_witness:
  "uploaded_file \<lparr>selected_builtin = ''iris'', uploaded_file = Some sales_csv,
                   generate_clicked = False\<rparr> = Some sales_csv
   \<and> fst (read_uploaded_file env0 sales_csv []) = Return sales_df
   \<and> fst (load_data env0 ''iris'' None []) = Return (Some iris_df)
   \<and> fst (load_data env0 ''iris'' (Some sales_csv) []) = Return (Some sales_df)
   \<and> fst (app env0 \<lparr>selected_builtin = ''iris'', uploaded_file = Some sales_csv,
                      generate_clicked = False\<rparr> []) = Return (Some sales_df)"
proof -
  let ?inp = "\<lparr>selected_builtin = ''iris'', uploaded_file = Some sales_csv,
               generate_clicked = False\<rparr>"
  have h1: "uploaded_file ?inp = Some sales_csv"
    by simp
  have h2: "fst (read_uploaded_file env0 sales_csv []) = Return sales_df"
    by (simp add: read_uploaded_file_run env0_def sales_csv_def endswith_def)
  have b: "fst (load_data env0 ''iris'' None []) = Return (Some iris_df)"
    by (simp add: load_data_no_upload env0_def)
  have c: "fst (load_data env0 (selected_builtin ?inp) (uploaded_file ?inp) []) = Return (Some sales_df)
       \<and> fst (app env0 ?inp []) = Return (Some sales_df)"
    by (rule upload_overrides_builtin
          [where inp = "?inp" and up = sales_csv and env = env0 and other_page = "[]"
             and d = sales_df and page = "[]", OF h1 h2])
  from h1 h2 b c show ?thesis
    by simp
qed

text \<open>
  C3. When the parser chosen for an uploaded file raises, \<open>read_uploaded_file\<close>
  returns the empty frame and shows the error message; nothing is raised to the caller,
  and the run of the script completes (with the start message of the idle page).
\<close>

theorem malformed_upload_yields_empty_dataset:
  assumes "uploaded_file inp = Some up"
    and "(if endswith (name up) ''.csv'' then read_csv env up else read_excel env up) = Inl e"
  shows "read_uploaded_file env up page =
           (Return DataFrame, page @ [St_error (''Could not read the file: '' @ str e)])
       \<and> df_empty DataFrame
       \<and> fst (app env inp page) = Return (Some DataFrame)
       \<and> St_error (''Could not read the file: '' @ str e) \<in> set (snd (app env inp page))"
proof -
  let ?msg = "St_error (''Could not read the file: '' @ str e) :: 'a element"
  let ?info = "St_info (''Select a built'' @ nb_hyphen
      @ ''in dataset or upload a CSV/Excel file to start.'') :: 'a element"
  have r: "\<And>pg. read_uploaded_file env up pg = (Return DataFrame, pg @ [?msg])"
    using assms(2) by (simp add: read_uploaded_file_run)
  have e: "df_empty DataFrame"
    by (simp add: df_empty_def DataFrame_def)
  have l: "load_data env (selected_builtin inp) (uploaded_file inp) page =
      (Return (Some DataFrame), snd (load_data env (selected_builtin inp) None page) @ [?msg])"
    by (simp add: assms(1) load_data_upload r e)
  have a: "app env inp page =
      (Return (Some DataFrame),
       snd (load_data env (selected_builtin inp) None page) @ [?msg, ?info])"
    by (simp add: app_run l data_preview_def e show_element_def)
  show ?thesis
    by (simp add: r e a)
qed

theorem malformed_upload_yields_empty_dataset_witness:
  "uploaded_file \<lparr>selected_builtin = ''-- none --'', uploaded_file = Some broken_csv,
                   generate_clicked = False\<rparr> = Some broken_csv
   \<and> (if endswith (name broken_csv) ''.csv'' then read_csv env0 broken_csv
       else read_excel env0 broken_csv) = Inl (Exception ''Error tokenizing data'')
   \<and> read_uploaded_file env0 broken_csv [] =
       (Return DataFrame, [St_error ''Could not read the file: Error tokenizing data''])
   \<and> fst (app env0 \<lparr>selected_builtin = ''-- none --'', uploaded_file = Some broken_csv,
                      generate_clicked = False\<rparr> []) = Return (Some DataFrame)"
proof -
  let ?inp = "\<lparr>selected_builtin = ''-- none --'', uploaded_file = Some broken_csv,
               generate_clicked = False\<rparr>"
  have h1: "uploaded_file ?inp = Some broken_csv"
    by simp
  have h2: "(if endswith (name broken_csv) ''.csv'' then read_csv env0 broken_csv
       else read_excel env0 broken_csv) = Inl (Exception ''Error tokenizing data'')"
    by (simp add: env0_def broken_csv_def sales_csv_def endswith_def)
  note c = malformed_upload_yields_empty_dataset
      [where inp = "?inp" and up = broken_csv and env = env0
         and e = "Exception ''Error tokenizing data''" and page = "[]", OF h1 h2]
  from h1 h2 c show ?thesis
    by simp
qed

text \<open>
  C10. \<open>read_uploaded_file\<close> returns a frame for every file and every behaviour of the
  parsers: the parsed table when the parser returns one, and the empty frame (with the
  error message shown) when the parser raises. It never raises.
\<close>

theorem read_uploaded_file_total:
  "(\<exists>df. fst (read_uploaded_file env up page) = Return df)
   \<and> read_uploaded_file env up page =
       (case (if endswith (name up) ''.csv'' then read_csv env up else read_excel env up) of
          Inr df \<Rightarrow> (Return df, page)
        | Inl e \<Rightarrow> (Return DataFrame, page @ [St_error (''Could not read the file: '' @ str e)]))"
  by (simp add: read_uploaded_file_run split: sum.splits)

text \<open>
  C7. When a built-in dataset is selected and \<open>get_data\<close> raises, the error message
  is shown and \<open>df\<close> stays \<open>None\<close>: the rest of the loading block runs as if no
  built-in dataset had been selected.
\<close>

theorem failed_builtin_load_leaves_dataset_unset:
  assumes "selected \<noteq> ''-- none --''"
    and "get_data env selected False = Inl e"
  shows "load_data env selected None page =
           (Return None,
            page @ [St_error (''Error loading built'' @ nb_hyphen @ ''in dataset: '' @ str e)])
       \<and> load_data env selected uploaded page =
           load_data env ''-- none --'' uploaded
             (page @ [St_error (''Error loading built'' @ nb_hyphen @ ''in dataset: '' @ str e)])"
  using assms
  by (cases uploaded) (simp_all add: load_data_no_upload load_data_upload)

theorem failed_builtin_load_leaves_dataset_unset_witness:
  "''adult'' \<noteq> ''-- none --''
   \<and> get_data env0 ''adult'' False = Inl (Exception ''HTTP Error 404: Not Found'')
   \<and> load_data env0 ''adult'' None [] =
       (Return None,
        [St_error (''Error loading built'' @ nb_hyphen @ ''in dataset: HTTP Error 404: Not Found'')
           :: (string \<times> bool) element])"
proof -
  have h1: "''adult'' \<noteq> ''-- none --''"
    by simp
  have h2: "get_data env0 ''adult'' False = Inl (Exception ''HTTP Error 404: Not Found'')"
    by (simp add: env0_def)
  note c = failed_builtin_load_leaves_dataset_unset
      [where selected = "''adult''" and env = env0
         and e = "Exception ''HTTP Error 404: Not Found''" and page = "[]" and uploaded = None,
       OF h1 h2]
  from h1 h2 c show ?thesis
    by simp
qed

section \<open>Preview, profile generator and report exporter\<close>

text \<open>
  C8. For an active non-empty Dataset the preview shows \<open>df.head(10)\<close>, the frame of
  its first 10 rows (all rows when it has fewer) under the same columns, and the
  Dataset itself is unchanged: the report generator that follows receives the frame
  the preview was given.
\<close>

theorem preview_shows_first_ten_rows:
  assumes "\<not> df_empty d"
  shows "data_preview env (Some d) selected clicked page =
           (if clicked then generate_report env d selected else return_py ())
             (page @ [St_subheader (clipboard @ '' Data Preview''),
                      St_dataframe (head d 10) True,
                      St_button ''Generate Profiling Report''])
       \<and> rows (head d 10) = take 10 (rows d)
       \<and> columns (head d 10) = columns d
       \<and> length (rows (head d 10)) = min 10 (length (rows d))"
  using assms
  by (simp add: data_preview_def head_def py_defs min_def)

text \<open>The twelve rows of \<open>iris_df\<close>: the preview shows the first ten.\<close>

theorem preview_shows_first_ten_rows_witness:
  "\<not> df_empty iris_df
   \<and> length (rows iris_df) = 12
   \<and> data_preview env0 (Some iris_df) ''iris'' False [] =
       (Return (),
        [St_subheader (clipboard @ '' Data Preview''),
         St_dataframe (head iris_df 10) True,
         St_button ''Generate Profiling Report''])
   \<and> length (rows (head iris_df 10)) = 10
   \<and> rows (head iris_df 10) = butlast (butlast (rows iris_df))"
proof -
  have h: "\<not> df_empty iris_df"
    by (simp add: df_empty_def iris_df_def)
  have n: "length (rows iris_df) = 12"
    by (simp add: iris_df_def)
  have b: "take 10 (rows iris_df) = butlast (butlast (rows iris_df))"
    by (simp add: iris_df_def)
  note c = preview_shows_first_ten_rows
      [where d = iris_df and env = env0 and selected = "''iris''" and clicked = False
         and page = "[]", OF h]
  from h n b c show ?thesis
    by (simp add: return_py_def)
qed

text \<open>
  C9. Every run of the report generator calls the profiling library once, on the frame
  it is given and with \<open>minimal=True\<close>, and what it displays and offers for download
  is the outcome of that call. In a run of the script where the button is clicked the
  generator is given the active Dataset itself (not the previewed head). Nothing else of
  the profiling library is consulted: the run is the same for any library that agrees
  with this one on the active Dataset in minimal mode.
\<close>

theorem profile_runs_on_active_dataset_minimal:
  assumes "fst (load_data env (selected_builtin inp) (uploaded_file inp) page) = Return (Some d)"
    and "pr d ''Data Profiling'' True True = ProfileReport env d ''Data Profiling'' True True"
  shows "generate_report env d selected pg =
           (Return (),
            pg @ St_spinner (''Creating the profile'' @ ellipsis) #
              (case ProfileReport env d ''Data Profiling'' True True of
                 Inl e \<Rightarrow> [St_error (''Profiling failed: '' @ str e)]
               | Inr profile \<Rightarrow>
                   (case profile_component env profile of
                      Inl e \<Rightarrow> [St_error (''Profiling failed: '' @ str e)]
                    | Inr u \<Rightarrow>
                        St_profile_report profile #
                        (case to_html env profile of
                           Inl e \<Rightarrow> [St_error (''Profiling failed: '' @ str e)]
                         | Inr html_str \<Rightarrow>
                             [St_columns 2,
                              St_download_button (inbox_tray @ '' Download HTML'')
                                (HtmlStr html_str)
                                (py_or selected ''uploaded_data'' @ ''_profiling.html'')
                                ''text/html'']
                             @ (case from_string env html_str False of
                                  Inl e \<Rightarrow> [St_warning (''PDF conversion failed: '' @ str e)]
                                | Inr b \<Rightarrow>
                                    if b \<noteq> []
                                    then [St_download_button (inbox_tray @ '' Download PDF'')
                                            (PdfBytes b)
                                            (py_or selected ''uploaded_data'' @ ''_profiling.pdf'')
                                            ''application/pdf'']
                                    else [])))))
       \<and> (\<not> df_empty d \<and> generate_clicked inp \<longrightarrow>
            app env inp page =
              (Return (Some d),
               snd (generate_report env d (selected_builtin inp)
                      (snd (load_data env (selected_builtin inp) (uploaded_file inp) page)
                       @ [St_subheader (clipboard @ '' Data Preview''),
                          St_dataframe (head d 10) True,
                          St_button ''Generate Profiling Report'']))))
       \<and> generate_report (env\<lparr>ProfileReport := pr\<rparr>) d selected = generate_report env d selected
       \<and> app (env\<lparr>ProfileReport := pr\<rparr>) inp page = app env inp page"
proof -
  let ?env = "env\<lparr>ProfileReport := pr\<rparr>"
  have r: "generate_report env d selected pg =
           (Return (),
            pg @ St_spinner (''Creating the profile'' @ ellipsis) #
              (case ProfileReport env d ''Data Profiling'' True True of
                 Inl e \<Rightarrow> [St_error (''Profiling failed: '' @ str e)]
               | Inr profile \<Rightarrow>
                   (case profile_component env profile of
                      Inl e \<Rightarrow> [St_error (''Profiling failed: '' @ str e)]
                    | Inr u \<Rightarrow>
                        St_profile_report profile #
                        (case to_html env profile of
                           Inl e \<Rightarrow> [St_error (''Profiling failed: '' @ str e)]
                         | Inr html_str \<Rightarrow>
                             [St_columns 2,
                              St_download_button (inbox_tray @ '' Download HTML'')
                                (HtmlStr html_str)
                                (py_or selected ''uploaded_data'' @ ''_profiling.html'')
                                ''text/html'']
                             @ (case from_string env html_str False of
                                  Inl e \<Rightarrow> [St_warning (''PDF conversion failed: '' @ str e)]
                                | Inr b \<Rightarrow>
                                    if b \<noteq> []
                                    then [St_download_button (inbox_tray @ '' Download PDF'')
                                            (PdfBytes b)
                                            (py_or selected ''uploaded_data'' @ ''_profiling.pdf'')
                                            ''application/pdf'']
                                    else [])))))"
    by (simp add: generate_report_def st_profile_report_def convert_html_to_pdf_run py_defs
        split: sum.splits)
  have c: "\<not> df_empty d \<and> generate_clicked inp \<longrightarrow>
            app env inp page =
              (Return (Some d),
               snd (generate_report env d (selected_builtin inp)
                      (snd (load_data env (selected_builtin inp) (uploaded_file inp) page)
                       @ [St_subheader (clipboard @ '' Data Preview''),
                          St_dataframe (head d 10) True,
                          St_button ''Generate Profiling Report''])))"
    unfolding app_run [OF assms(1)]
    by (simp add: data_preview_def py_defs)
  have g: "\<And>s. generate_report ?env d s = generate_report env d s"
    by (rule generate_report_ProfileReport_update
          [where pr = pr and d = d and env = env, OF assms(2)])
  have p: "\<And>s c pg. data_preview ?env (Some d) s c pg = data_preview env (Some d) s c pg"
    by (simp add: data_preview_def g cong: if_cong)
  have l: "load_data ?env (selected_builtin inp) (uploaded_file inp) page =
      load_data env (selected_builtin inp) (uploaded_file inp) page"
    by (rule load_data_ProfileReport_update)
  have l': "fst (load_data ?env (selected_builtin inp) (uploaded_file inp) page) = Return (Some d)"
    unfolding l by (rule assms(1))
  have a: "app ?env inp page = app env inp page"
    unfolding app_run [OF l'] app_run [OF assms(1)] l p by (rule refl)
  show ?thesis
    by (rule conjI [OF r conjI [OF c conjI [OF g a]]])
qed

text \<open>
  \<open>iris\<close> is selected and the button clicked: the page shows the profile that the
  library returns for \<open>iris_df\<close> in minimal mode, followed by its HTML export. A second
  library that fails in full mode and on every other frame gives the same run.
\<close>

theorem profile_runs_on_active_dataset_minimal_witness:
  "fst (load_data env0 ''iris'' None []) = Return (Some iris_df)
   \<and> (\<lambda>df title explorative minimal.
         if df = iris_df \<and> minimal then Inr (title, minimal)
         else Inl (Exception ''not computed'')) iris_df ''Data Profiling'' True True
       = ProfileReport env0 iris_df ''Data Profiling'' True True
   \<and> \<not> df_empty iris_df
   \<and> ProfileReport env0 iris_df ''Data Profiling'' True True = Inr (''Data Profiling'', True)
   \<and> app env0
         \<lparr>selected_builtin = ''iris'', uploaded_file = None, generate_clicked = True\<rparr> [] =
       (Return (Some iris_df),
        [St_success (check_mark @ '' Loaded **iris** dataset.''),
         St_subheader (clipboard @ '' Data Preview''),
         St_dataframe (head iris_df 10) True,
         St_button ''Generate Profiling Report'',
         St_spinner (''Creating the profile'' @ ellipsis),
         St_profile_report (''Data Profiling'', True),
         St_columns 2,
         St_download_button (inbox_tray @ '' Download HTML'')
           (HtmlStr ''<!doctype html><title>Data Profiling</title>'')
           ''iris_profiling.html'' ''text/html'',
         St_warning ''PDF conversion failed: No wkhtmltopdf executable found''])
   \<and> app (env0\<lparr>ProfileReport :=
               \<lambda>df title explorative minimal.
                 if df = iris_df \<and> minimal then Inr (title, minimal)
                 else Inl (Exception ''not computed'')\<rparr>)
         \<lparr>selected_builtin = ''iris'', uploaded_file = None, generate_clicked = True\<rparr> []
       = app env0
           \<lparr>selected_builtin = ''iris'', uploaded_file = None, generate_clicked = True\<rparr> []"
proof -
  let ?inp = "\<lparr>selected_builtin = ''iris'', uploaded_file = None, generate_clicked = True\<rparr>"
  let ?pr = "\<lambda>df title explorative minimal.
      if df = iris_df \<and> minimal then Inr (title, minimal)
      else Inl (Exception ''not computed'') :: py_exception + string \<times> bool"
  let ?pg = "snd (load_data env0 (selected_builtin ?inp) (uploaded_file ?inp) [])
      @ [St_subheader (clipboard @ '' Data Preview''),
         St_dataframe (head iris_df 10) True,
         St_button ''Generate Profiling Report'']"
  have h1: "fst (load_data env0 (selected_builtin ?inp) (uploaded_file ?inp) []) =
      Return (Some iris_df)"
    by (simp add: load_data_no_upload env0_def)
  have h2: "?pr iris_df ''Data Profiling'' True True =
      ProfileReport env0 iris_df ''Data Profiling'' True True"
    by (simp add: env0_def)
  have h3: "\<not> df_empty iris_df \<and> generate_clicked ?inp"
    by (simp add: df_empty_def iris_df_def)
  have h4: "ProfileReport env0 iris_df ''Data Profiling'' True True = Inr (''Data Profiling'', True)"
    by (simp add: env0_def)
  note c = profile_runs_on_active_dataset_minimal
      [where env = env0 and inp = "?inp" and page = "[]" and d = iris_df and pr = "?pr"
         and selected = "selected_builtin ?inp" and pg = "?pg", OF h1 h2]
  note called = c [THEN conjunct1]
  note invoked = c [THEN conjunct2, THEN conjunct1, rule_format, OF h3]
  note same = c [THEN conjunct2, THEN conjunct2, THEN conjunct2]
  have a: "app env0 ?inp [] =
       (Return (Some iris_df),
        [St_success (check_mark @ '' Loaded **iris** dataset.''),
         St_subheader (clipboard @ '' Data Preview''),
         St_dataframe (head iris_df 10) True,
         St_button ''Generate Profiling Report'',
         St_spinner (''Creating the profile'' @ ellipsis),
         St_profile_report (''Data Profiling'', True),
         St_columns 2,
         St_download_button (inbox_tray @ '' Download HTML'')
           (HtmlStr ''<!doctype html><title>Data Profiling</title>'')
           ''iris_profiling.html'' ''text/html'',
         St_warning ''PDF conversion failed: No wkhtmltopdf executable found''])"
    unfolding invoked called
    by (simp add: load_data_no_upload env0_def py_or_def)
  from h1 h2 h3 h4 a same show ?thesis
    by simp
qed

text \<open>
  C4. When the profile and its HTML export exist and \<open>pdfkit\<close> raises,
  \<open>convert_html_to_pdf\<close> returns \<open>None\<close> and shows a warning (not an error); the
  report block ends normally with the HTML download button on the page and no PDF
  download button.
\<close>

theorem pdf_failure_keeps_html_export:
  assumes "ProfileReport env df ''Data Profiling'' True True = Inr profile"
    and "profile_component env profile = Inr ()"
    and "to_html env profile = Inr html_str"
    and "from_string env html_str False = Inl e"
  shows "convert_html_to_pdf env html_str page =
           (Return None, page @ [St_warning (''PDF conversion failed: '' @ str e)])
       \<and> generate_report env df selected page =
           (Return (),
            page @ [St_spinner (''Creating the profile'' @ ellipsis),
                    St_profile_report profile,
                    St_columns 2,
                    St_download_button (inbox_tray @ '' Download HTML'') (HtmlStr html_str)
                      (py_or selected ''uploaded_data'' @ ''_profiling.html'') ''text/html'',
                    St_warning (''PDF conversion failed: '' @ str e)])"
  using assms
  by (simp add: generate_report_def st_profile_report_def convert_html_to_pdf_run py_defs)

theorem pdf_failure_keeps_html_export_witness:
  "ProfileReport env0 iris_df ''Data Profiling'' True True = Inr (''Data Profiling'', True)
   \<and> profile_component env0 (''Data Profiling'', True) = Inr ()
   \<and> to_html env0 (''Data Profiling'', True) = Inr ''<!doctype html><title>Data Profiling</title>''
   \<and> from_string env0 ''<!doctype html><title>Data Profiling</title>'' False =
       Inl (Exception ''No wkhtmltopdf executable found'')
   \<and> generate_report env0 iris_df ''iris'' [] =
       (Return (),
        [St_spinner (''Creating the profile'' @ ellipsis),
         St_profile_report (''Data Profiling'', True),
         St_columns 2,
         St_download_button (inbox_tray @ '' Download HTML'')
           (HtmlStr ''<!doctype html><title>Data Profiling</title>'')
           ''iris_profiling.html'' ''text/html'',
         St_warning ''PDF conversion failed: No wkhtmltopdf executable found''])"
proof -
  have h1: "ProfileReport env0 iris_df ''Data Profiling'' True True = Inr (''Data Profiling'', True)"
    by (simp add: env0_def)
  have h2: "profile_component env0 (''Data Profiling'', True) = Inr ()"
    by (simp add: env0_def)
  have h3: "to_html env0 (''Data Profiling'', True) =
      Inr ''<!doctype html><title>Data Profiling</title>''"
    by (simp add: env0_def)
  have h4: "from_string env0 ''<!doctype html><title>Data Profiling</title>'' False =
      Inl (Exception ''No wkhtmltopdf executable found'')"
    by (simp add: env0_def)
  note c = pdf_failure_keeps_html_export
      [where env = env0 and df = iris_df and profile = "(''Data Profiling'', True)"
         and html_str = "''<!doctype html><title>Data Profiling</title>''"
         and e = "Exception ''No wkhtmltopdf executable found''"
         and page = "[]" and selected = "''iris''", OF h1 h2 h3 h4]
  from h1 h2 h3 h4 c show ?thesis
    by (simp add: py_or_def)
qed

section \<open>Interactive shell\<close>

text \<open>
  C2 says that a failed action leaves the shell in its earlier state and never discards
  a Dataset that was active. The script does not do so. In a first run \<open>iris\<close> is
  selected and becomes the active Dataset (state \<open>Loaded\<close>); in the next run the
  selection is the same and a file that cannot be parsed is uploaded: the error is
  shown, \<open>df\<close> is overwritten with the empty frame, and the run ends on the idle
  page although \<open>iris\<close> was loaded again in that very run.
\<close>

theorem failed_upload_discards_active_dataset:
  "shell_state_after
     (app env0 \<lparr>selected_builtin = ''iris'', uploaded_file = None,
                 generate_clicked = False\<rparr> []) = Loaded iris_df
   \<and> fst (load_data env0 ''iris'' None []) = Return (Some iris_df)
   \<and> app env0 \<lparr>selected_builtin = ''iris'', uploaded_file = Some broken_csv,
                 generate_clicked = False\<rparr> [] =
       (Return (Some DataFrame),
        [St_success (check_mark @ '' Loaded **iris** dataset.''),
         St_error ''Could not read the file: Error tokenizing data'',
         St_info (''Select a built'' @ nb_hyphen
                  @ ''in dataset or upload a CSV/Excel file to start.'')])
   \<and> shell_state_after
       (app env0 \<lparr>selected_builtin = ''iris'', uploaded_file = Some broken_csv,
                   generate_clicked = False\<rparr> []) = Idle"
proof -
  let ?inp1 = "\<lparr>selected_builtin = ''iris'', uploaded_file = None, generate_clicked = False\<rparr>"
  let ?inp2 = "\<lparr>selected_builtin = ''iris'', uploaded_file = Some broken_csv,
                generate_clicked = False\<rparr>"
  have e: "\<not> df_empty iris_df"
    by (simp add: df_empty_def iris_df_def)
  have e': "df_empty DataFrame"
    by (simp add: df_empty_def DataFrame_def)
  have l1: "load_data env0 ''iris'' None [] =
      (Return (Some iris_df), [St_success (check_mark @ '' Loaded **iris** dataset.'')])"
    by (simp add: load_data_no_upload env0_def)
  have r: "\<And>pg. read_uploaded_file env0 broken_csv pg =
      (Return DataFrame, pg @ [St_error ''Could not read the file: Error tokenizing data''])"
    by (simp add: read_uploaded_file_run env0_def broken_csv_def sales_csv_def endswith_def)
  have l2: "load_data env0 ''iris'' (Some broken_csv) [] =
      (Return (Some DataFrame),
       [St_success (check_mark @ '' Loaded **iris** dataset.''),
        St_error ''Could not read the file: Error tokenizing data''])"
    by (simp add: load_data_upload l1 r e')
  have f1: "fst (load_data env0 (selected_builtin ?inp1) (uploaded_file ?inp1) []) =
      Return (Some iris_df)"
    by (simp add: l1)
  have f2: "fst (load_data env0 (selected_builtin ?inp2) (uploaded_file ?inp2) []) =
      Return (Some DataFrame)"
    by (simp add: l2)
  have a1: "app env0 ?inp1 [] =
      (Return (Some iris_df),
       [St_success (check_mark @ '' Loaded **iris** dataset.''),
        St_subheader (clipboard @ '' Data Preview''),
        St_dataframe (head iris_df 10) True,
        St_button ''Generate Profiling Report''])"
    unfolding app_run [OF f1]
    by (simp add: l1 data_preview_def e py_defs)
  have a2: "app env0 ?inp2 [] =
      (Return (Some DataFrame),
       [St_success (check_mark @ '' Loaded **iris** dataset.''),
        St_error ''Could not read the file: Error tokenizing data'',
        St_info (''Select a built'' @ nb_hyphen
                 @ ''in dataset or upload a CSV/Excel file to start.'')])"
    unfolding app_run [OF f2]
    by (simp add: l2 data_preview_def e' py_defs)
  show ?thesis
    unfolding a1 a2
    by (simp add: shell_state_after_def e e' l1)
qed

text \<open>
  C2 as the script has it. Every run starts from \<open>df = None\<close> and recomputes the
  Dataset from the widgets, so nothing is kept from an earlier run. A failed upload, and
  a failed built-in load when no file is uploaded, show the error and end the run in
  \<open>Idle\<close>. A failed profiling step (the constructor, the display component or the HTML
  export raises) shows the error, offers no export, and leaves the Dataset of this run
  active: the run ends in \<open>Loaded\<close>.
\<close>

theorem failed_action_outcome:
  "(uploaded_file inp = Some up
      \<and> (if endswith (name up) ''.csv'' then read_csv env up else read_excel env up) = Inl e
    \<longrightarrow> shell_state_after (app env inp []) = Idle
        \<and> St_error (''Could not read the file: '' @ str e) \<in> set (snd (app env inp [])))
   \<and> (uploaded_file inp = None \<and> selected_builtin inp \<noteq> ''-- none --''
      \<and> get_data env (selected_builtin inp) False = Inl e
    \<longrightarrow> shell_state_after (app env inp []) = Idle
        \<and> St_error (''Error loading built'' @ nb_hyphen @ ''in dataset: '' @ str e)
            \<in> set (snd (app env inp [])))
   \<and> (fst (load_data env (selected_builtin inp) (uploaded_file inp) []) = Return (Some d)
      \<and> \<not> df_empty d \<and> generate_clicked inp
      \<and> (ProfileReport env d ''Data Profiling'' True True = Inl e
          \<or> (\<exists>p. ProfileReport env d ''Data Profiling'' True True = Inr p
                 \<and> (profile_component env p = Inl e
                     \<or> (profile_component env p = Inr () \<and> to_html env p = Inl e))))
    \<longrightarrow> shell_state_after (app env inp []) = Loaded d
        \<and> fst (app env inp []) = Return (Some d)
        \<and> St_error (''Profiling failed: '' @ str e) \<in> set (snd (app env inp [])))"
proof (intro conjI impI; (elim conjE)?)
  let ?info = "St_info (''Select a built'' @ nb_hyphen
      @ ''in dataset or upload a CSV/Excel file to start.'') :: 'a element"
  have empty: "df_empty DataFrame"
    by (simp add: df_empty_def DataFrame_def)
  {
    assume u: "uploaded_file inp = Some up"
      and p: "(if endswith (name up) ''.csv'' then read_csv env up else read_excel env up) = Inl e"
    let ?msg = "St_error (''Could not read the file: '' @ str e) :: 'a element"
    have r: "\<And>pg. read_uploaded_file env up pg = (Return DataFrame, pg @ [?msg])"
      using p by (simp add: read_uploaded_file_run)
    have l: "load_data env (selected_builtin inp) (uploaded_file inp) [] =
        (Return (Some DataFrame), snd (load_data env (selected_builtin inp) None []) @ [?msg])"
      by (simp add: u load_data_upload r empty)
    have a: "app env inp [] =
        (Return (Some DataFrame),
         snd (load_data env (selected_builtin inp) None []) @ [?msg, ?info])"
      by (simp add: app_run l data_preview_def empty show_element_def)
    show "shell_state_after (app env inp []) = Idle"
      by (simp add: a shell_state_after_def empty)
    show "?msg \<in> set (snd (app env inp []))"
      by (simp add: a)
  }
  {
    assume u: "uploaded_file inp = None"
      and s: "selected_builtin inp \<noteq> ''-- none --''"
      and g: "get_data env (selected_builtin inp) False = Inl e"
    let ?msg = "St_error (''Error loading built'' @ nb_hyphen @ ''in dataset: '' @ str e)
        :: 'a element"
    have l: "load_data env (selected_builtin inp) (uploaded_file inp) [] = (Return None, [?msg])"
      using s g by (simp add: u load_data_no_upload)
    have a: "app env inp [] = (Return None, [?msg, ?info])"
      by (simp add: app_run l data_preview_def show_element_def)
    show "shell_state_after (app env inp []) = Idle"
      by (simp add: a shell_state_after_def)
    show "?msg \<in> set (snd (app env inp []))"
      by (simp add: a)
  }
  {
    assume l: "fst (load_data env (selected_builtin inp) (uploaded_file inp) []) = Return (Some d)"
      and ne: "\<not> df_empty d"
      and c: "generate_clicked inp"
      and f: "ProfileReport env d ''Data Profiling'' True True = Inl e
          \<or> (\<exists>p. ProfileReport env d ''Data Profiling'' True True = Inr p
                 \<and> (profile_component env p = Inl e
                     \<or> (profile_component env p = Inr () \<and> to_html env p = Inl e)))"
    let ?loaded = "snd (load_data env (selected_builtin inp) (uploaded_file inp) [])"
    let ?preview = "[St_subheader (clipboard @ '' Data Preview''),
        St_dataframe (head d 10) True,
        St_button ''Generate Profiling Report''] :: 'a element list"
    obtain shown where g:
      "generate_report env d (selected_builtin inp) (?loaded @ ?preview) =
         (Return (), (?loaded @ ?preview) @ St_spinner (''Creating the profile'' @ ellipsis)
            # shown @ [St_error (''Profiling failed: '' @ str e)])"
      and n: "exports_available shown = False"
      using generate_report_failure
          [where env = env and d = d and e = e and selected = "selected_builtin inp"
             and page = "?loaded @ ?preview", OF f]
      by blast
    have a: "app env inp [] =
        (Return (Some d),
         (?loaded @ ?preview) @ St_spinner (''Creating the profile'' @ ellipsis)
            # shown @ [St_error (''Profiling failed: '' @ str e)])"
      unfolding app_run [OF l]
      using g by (simp add: data_preview_def ne c py_defs)
    show "shell_state_after (app env inp []) = Loaded d"
      unfolding a
      by (simp add: shell_state_after_def ne exports_available_append load_data_no_exports n)
    show "fst (app env inp []) = Return (Some d)"
      by (simp add: a)
    show "St_error (''Profiling failed: '' @ str e) \<in> set (snd (app env inp []))"
      by (simp add: a)
  }
qed

text \<open>
  The three failures with the example libraries: \<open>notes.csv\<close> cannot be parsed,
  \<open>adult\<close> cannot be fetched, and profiling \<open>iris\<close> fails in a library whose
  constructor raises.
\<close>

theorem failed_action_outcome_witness:
  "shell_state_after
     (app env0 \<lparr>selected_builtin = ''iris'', uploaded_file = Some broken_csv,
                 generate_clicked = False\<rparr> []) = Idle
   \<and> shell_state_after
       (app env0 \<lparr>selected_builtin = ''adult'', uploaded_file = None,
                   generate_clicked = False\<rparr> []) = Idle
   \<and> shell_state_after
       (app (env0\<lparr>ProfileReport :=
                    \<lambda>df title explorative minimal. Inl (Exception ''No numeric columns'')\<rparr>)
          \<lparr>selected_builtin = ''iris'', uploaded_file = None, generate_clicked = True\<rparr> [])
       = Loaded iris_df"
proof -
  let ?inp1 = "\<lparr>selected_builtin = ''iris'', uploaded_file = Some broken_csv,
                generate_clicked = False\<rparr>"
  let ?inp2 = "\<lparr>selected_builtin = ''adult'', uploaded_file = None, generate_clicked = False\<rparr>"
  let ?inp3 = "\<lparr>selected_builtin = ''iris'', uploaded_file = None, generate_clicked = True\<rparr>"
  let ?env3 = "env0\<lparr>ProfileReport :=
      \<lambda>df title explorative minimal. Inl (Exception ''No numeric columns'')\<rparr>"
  have u1: "uploaded_file ?inp1 = Some broken_csv
      \<and> (if endswith (name broken_csv) ''.csv'' then read_csv env0 broken_csv
          else read_excel env0 broken_csv) = Inl (Exception ''Error tokenizing data'')"
    by (simp add: env0_def broken_csv_def sales_csv_def endswith_def)
  have u2: "uploaded_file ?inp2 = None \<and> selected_builtin ?inp2 \<noteq> ''-- none --''
      \<and> get_data env0 (selected_builtin ?inp2) False = Inl (Exception ''HTTP Error 404: Not Found'')"
    by (simp add: env0_def)
  have u3: "fst (load_data ?env3 (selected_builtin ?inp3) (uploaded_file ?inp3) []) =
        Return (Some iris_df)
      \<and> \<not> df_empty iris_df \<and> generate_clicked ?inp3
      \<and> (ProfileReport ?env3 iris_df ''Data Profiling'' True True = Inl (Exception ''No numeric columns'')
          \<or> (\<exists>p. ProfileReport ?env3 iris_df ''Data Profiling'' True True = Inr p
                 \<and> (profile_component ?env3 p = Inl (Exception ''No numeric columns'')
                     \<or> (profile_component ?env3 p = Inr ()
                         \<and> to_html ?env3 p = Inl (Exception ''No numeric columns'')))))"
    by (simp add: load_data_no_upload env0_def df_empty_def iris_df_def)
  note c1 = failed_action_outcome
      [where inp = "?inp1" and up = broken_csv and env = env0
         and e = "Exception ''Error tokenizing data''", THEN conjunct1, rule_format, OF u1]
  note c2 = failed_action_outcome
      [where inp = "?inp2" and env = env0
         and e = "Exception ''HTTP Error 404: Not Found''",
       THEN conjunct2, THEN conjunct1, rule_format, OF u2]
  note c3 = failed_action_outcome
      [where inp = "?inp3" and env = "?env3" and d = iris_df
         and e = "Exception ''No numeric columns''",
       THEN conjunct2, THEN conjunct2, rule_format, OF u3]
  from c1 c2 c3 show ?thesis
    by blast
qed

text \<open>
  C5. The uploader is created with \<open>type=["csv", "xlsx"]\<close>: it admits \<open>.csv\<close> and
  \<open>.xlsx\<close> files and turns away a \<open>.xls\<close> file, which the comment of line 34
  (\<open># .xlsx, .xls\<close>) expects \<open>read_uploaded_file\<close> to receive.
\<close>

theorem uploader_rejects_xls:
  "uploader_type = [''csv'', ''xlsx'']
   \<and> file_uploader_accepts ''sales.csv''
   \<and> file_uploader_accepts ''sales.xlsx''
   \<and> file_uploader_accepts ''sales.xls'' = False"
  by (simp add: file_uploader_accepts_def uploader_type_def endswith_def lower_def
      lower_char_def)

text \<open>
  C6. With no built-in dataset selected the selectbox returns \<open>-- none --\<close>, a
  non-empty string, so \<open>selected_builtin or 'uploaded_data'\<close> is \<open>-- none --\<close> and
  the fallback label is never used: for an uploaded file the downloads are named
  \<open>-- none --_profiling.html\<close> and \<open>-- none --_profiling.pdf\<close>.
\<close>

theorem upload_export_file_names:
  "py_or ''-- none --'' ''uploaded_data'' = ''-- none --''
   \<and> app (env0\<lparr>from_string := \<lambda>html out. Inr ''%PDF-1.4''\<rparr>)
       \<lparr>selected_builtin = ''-- none --'', uploaded_file = Some sales_csv,
          generate_clicked = True\<rparr> [] =
     (Return (Some sales_df),
      [St_success (check_mark @ '' Uploaded data loaded.''),
       St_subheader (clipboard @ '' Data Preview''),
       St_dataframe (head sales_df 10) True,
       St_button ''Generate Profiling Report'',
       St_spinner (''Creating the profile'' @ ellipsis),
       St_profile_report (''Data Profiling'', True),
       St_columns 2,
       St_download_button (inbox_tray @ '' Download HTML'')
         (HtmlStr ''<!doctype html><title>Data Profiling</title>'')
         ''-- none --_profiling.html'' ''text/html'',
       St_download_button (inbox_tray @ '' Download PDF'')
         (PdfBytes ''%PDF-1.4'')
         ''-- none --_profiling.pdf'' ''application/pdf''])"
proof -
  let ?env = "env0\<lparr>from_string := \<lambda>html out. Inr ''%PDF-1.4''\<rparr>"
  let ?inp = "\<lparr>selected_builtin = ''-- none --'', uploaded_file = Some sales_csv,
               generate_clicked = True\<rparr>"
  have e: "\<not> df_empty sales_df"
    by (simp add: df_empty_def sales_df_def)
  have r: "\<And>pg. read_uploaded_file ?env sales_csv pg = (Return sales_df, pg)"
    by (simp add: read_uploaded_file_run env0_def sales_csv_def endswith_def)
  have l: "load_data ?env ''-- none --'' (Some sales_csv) [] =
      (Return (Some sales_df), [St_success (check_mark @ '' Uploaded data loaded.'')])"
    by (simp add: load_data_upload load_data_no_upload r e)
  have f: "fst (load_data ?env (selected_builtin ?inp) (uploaded_file ?inp) []) =
      Return (Some sales_df)"
    by (simp add: l)
  have g: "\<And>pg. generate_report ?env sales_df ''-- none --'' pg =
     (Return (),
      pg @ [St_spinner (''Creating the profile'' @ ellipsis),
            St_profile_report (''Data Profiling'', True),
            St_columns 2,
            St_download_button (inbox_tray @ '' Download HTML'')
              (HtmlStr ''<!doctype html><title>Data Profiling</title>'')
              ''-- none --_profiling.html'' ''text/html'',
            St_download_button (inbox_tray @ '' Download PDF'')
              (PdfBytes ''%PDF-1.4'')
              ''-- none --_profiling.pdf'' ''application/pdf''])"
    by (simp add: generate_report_def st_profile_report_def convert_html_to_pdf_run
        py_defs py_or_def env0_def)
  have a: "app ?env ?inp [] =
     (Return (Some sales_df),
      [St_success (check_mark @ '' Uploaded data loaded.''),
       St_subheader (clipboard @ '' Data Preview''),
       St_dataframe (head sales_df 10) True,
       St_button ''Generate Profiling Report'',
       St_spinner (''Creating the profile'' @ ellipsis),
       St_profile_report (''Data Profiling'', True),
       St_columns 2,
       St_download_button (inbox_tray @ '' Download HTML'')
         (HtmlStr ''<!doctype html><title>Data Profiling</title>'')
         ''-- none --_profiling.html'' ''text/html'',
       St_download_button (inbox_tray @ '' Download PDF'')
         (PdfBytes ''%PDF-1.4'')
         ''-- none --_profiling.pdf'' ''application/pdf''])"
    unfolding app_run [OF f]
    by (simp add: l data_preview_def e g py_defs)
  show ?thesis
    by (simp add: a py_or_def)
qed


end
